theory Spec2Isabelle
  imports Main "HOL-Library.Word"
begin

section \<open>Elapsed time between two readings of a wrapping tick counter\<close>

text \<open>
  The repository holds one function, \<^verbatim>\<open>timeInterval\<close> of
  \<^verbatim>\<open>src/arduino/timeUtil.cpp\<close>:

  \<^verbatim>\<open>unsigned long timeInterval(unsigned long from, unsigned long to) {
  if (from <= to) { return to - from; }
  else { return (4294967295 - from) + to; }
}\<close>

  On the Arduino targets \<^verbatim>\<open>unsigned long\<close> has 32 bits, and so has
  \<^verbatim>\<open>long\<close>. The decimal literal \<^verbatim>\<open>4294967295\<close> fits neither
  \<^verbatim>\<open>int\<close> nor \<^verbatim>\<open>long\<close>, so its type is \<^verbatim>\<open>long long\<close>
  (64 bits, signed): both operands of the second branch are widened to 64 bits, the
  difference and the sum are computed there, and the \<^verbatim>\<open>return\<close> narrows the
  sum to 32 bits.
\<close>

subsection \<open>Types\<close>

type_synonym ulong = "32 word"
type_synonym longlong = "64 word"

subsection \<open>The function\<close>

text \<open>
  The first branch is a subtraction of two \<^verbatim>\<open>unsigned long\<close> values, which
  wraps modulo \<open>2 ^ 32\<close> by the language rules. The second branch widens
  (\<^const>\<open>ucast\<close> to 64 bits), computes, and narrows (\<^const>\<open>ucast\<close> to 32 bits,
  which keeps the low 32 bits).
\<close>

definition timeInterval :: "ulong \<Rightarrow> ulong \<Rightarrow> ulong" where
  "timeInterval from to =
     (if from \<le> to then to - from
      else ucast (((4294967295 :: longlong) - ucast from) + ucast to))"

text \<open>
  The same function with the language's one possible failure made explicit. Unsigned
  arithmetic never fails; arithmetic on the signed type \<^verbatim>\<open>long long\<close> is
  undefined when the exact result leaves \<open>[- 2 ^ 63, 2 ^ 63)\<close>. Here the exact
  integers are computed, each intermediate result is tested against that range, and
  \<^const>\<open>None\<close> stands for undefined behaviour.
\<close>

definition in_longlong :: "int \<Rightarrow> bool" where
  "in_longlong x = (- (2 ^ 63) \<le> x \<and> x < 2 ^ 63)"

definition timeInterval_checked :: "ulong \<Rightarrow> ulong \<Rightarrow> ulong option" where
  "timeInterval_checked from to =
     (if from \<le> to then Some (to - from)
      else (let d = 4294967295 - uint from in
            if in_longlong d
            then (let s = d + uint to in
                  if in_longlong s then Some (word_of_int s) else None)
            else None))"

text \<open>
  The single expression of the specification's design notes, written from its words:
  \<open>(to - from) mod 2 ^ 32\<close> over the exact integers, as a 32-bit value.
\<close>

definition timeInterval_modular :: "ulong \<Rightarrow> ulong \<Rightarrow> ulong" where
  "timeInterval_modular from to = word_of_int ((uint to - uint from) mod 2 ^ 32)"

section \<open>Arithmetic of the two branches\<close>

text \<open>Exact integers in the range of a 32-bit counter need no reduction.\<close>

lemma diff_no_mod64:
  "0 \<le> x \<Longrightarrow> x \<le> 4294967295 \<Longrightarrow> (4294967295 - x) mod 2 ^ 64 = 4294967295 - x"
  for x :: int
  by simp

lemma sum_no_mod64:
  "0 \<le> x \<Longrightarrow> x \<le> 4294967295 \<Longrightarrow> 0 \<le> y \<Longrightarrow> y \<le> 4294967295 \<Longrightarrow>
     (4294967295 - x + y) mod 2 ^ 64 = 4294967295 - x + y"
  for x y :: int
  by simp

lemma diff_no_mod32:
  "0 \<le> x \<Longrightarrow> x \<le> 4294967295 \<Longrightarrow> (4294967295 - x) mod 2 ^ 32 = 4294967295 - x"
  for x :: int
  by simp

lemma sum_no_mod32:
  "0 \<le> y \<Longrightarrow> y < x \<Longrightarrow> x \<le> 4294967295 \<Longrightarrow>
     (4294967295 - x + y) mod 2 ^ 32 = 4294967295 - x + y"
  for x y :: int
  by simp

lemma uint_ulong_bounds: "0 \<le> uint a \<and> uint a \<le> 4294967295" for a :: ulong
  using uint_lt2p [of a] by simp

lemma uint_widen: "uint (ucast a :: longlong) = uint a" for a :: ulong
  by (simp add: uint_up_ucast is_up)

lemma uint_longlong_diff:
  "uint ((4294967295 :: longlong) - ucast a) = 4294967295 - uint a" for a :: ulong
proof -
  have "uint ((4294967295 :: longlong) - ucast a) = (4294967295 - uint a) mod 2 ^ 64"
    by (simp add: uint_word_ariths uint_widen)
  also have "\<dots> = 4294967295 - uint a"
    using uint_ulong_bounds [of a] by (intro diff_no_mod64) simp_all
  finally show ?thesis .
qed

lemma uint_longlong_sum:
  "uint (((4294967295 :: longlong) - ucast a) + ucast b) = 4294967295 - uint a + uint b"
  for a b :: ulong
proof -
  have "uint (((4294967295 :: longlong) - ucast a) + ucast b)
          = (uint ((4294967295 :: longlong) - ucast a) + uint (ucast b :: longlong)) mod 2 ^ 64"
    by (simp add: uint_word_ariths(1))
  also have "\<dots> = (4294967295 - uint a + uint b) mod 2 ^ 64"
    by (simp only: uint_longlong_diff uint_widen)
  also have "\<dots> = 4294967295 - uint a + uint b"
    using uint_ulong_bounds [of a] uint_ulong_bounds [of b] by (intro sum_no_mod64) simp_all
  finally show ?thesis .
qed

text \<open>Narrowing the 64-bit sum gives the sum computed in 32 bits throughout.\<close>

lemma wrap_branch_ulong:
  "(ucast (((4294967295 :: longlong) - ucast a) + ucast b) :: ulong) = 4294967295 - a + b"
  for a b :: ulong
proof -
  have "(ucast (((4294967295 :: longlong) - ucast a) + ucast b) :: ulong)
          = word_of_int (uint (((4294967295 :: longlong) - ucast a) + ucast b))"
    by (rule ucast_eq)
  also have "\<dots> = word_of_int (4294967295 - uint a + uint b)"
    by (simp only: uint_longlong_sum)
  also have "\<dots> = 4294967295 - a + b"
    by simp
  finally show ?thesis .
qed

lemma wrap_branch_uint:
  assumes "b < a"
  shows "uint ((4294967295 :: ulong) - a + b) = 4294967295 - uint a + uint b"
proof -
  have lt: "uint b < uint a" using assms by (simp add: word_less_def)
  have "uint ((4294967295 :: ulong) - a + b) = (4294967295 - uint a + uint b) mod 2 ^ 32"
    by (simp add: uint_word_ariths mod_simps)
  also have "\<dots> = 4294967295 - uint a + uint b"
    using lt uint_ulong_bounds [of a] by (intro sum_no_mod32) simp_all
  finally show ?thesis .
qed

lemma timeInterval_le: "from \<le> to \<Longrightarrow> timeInterval from to = to - from"
  by (simp add: timeInterval_def)

lemma timeInterval_gt: "to < from \<Longrightarrow> timeInterval from to = 4294967295 - from + to"
  by (simp add: timeInterval_def wrap_branch_ulong not_le [symmetric])

lemma uint_timeInterval_le:
  "from \<le> to \<Longrightarrow> uint (timeInterval from to) = uint to - uint from"
  by (simp add: timeInterval_le uint_minus_simple_alt)

lemma uint_timeInterval_gt:
  "to < from \<Longrightarrow> uint (timeInterval from to) = 4294967295 - uint from + uint to"
  by (simp add: timeInterval_gt wrap_branch_uint)

lemma uint_succ_below:
  fixes t u :: ulong
  assumes "t < u"
  shows "uint (t + 1) = uint t + 1"
proof -
  have lt: "uint t < uint u" using assms by (simp add: word_less_def)
  have "uint (t + 1) = (uint t + 1) mod 2 ^ 32"
    by (simp add: uint_word_ariths)
  also have "\<dots> = uint t + 1"
    using lt uint_ulong_bounds [of u] by (intro mod_pos_pos_trivial) simp_all
  finally show ?thesis .
qed

lemma timeInterval_checked_le:
  "from \<le> to \<Longrightarrow> timeInterval_checked from to = Some (timeInterval from to)"
  by (simp add: timeInterval_checked_def timeInterval_def)

lemma in_longlong_diff_int:
  "0 \<le> x \<Longrightarrow> x \<le> 4294967295 \<Longrightarrow> in_longlong (4294967295 - x)"
  by (simp add: in_longlong_def)

lemma in_longlong_sum_int:
  "0 \<le> x \<Longrightarrow> x \<le> 4294967295 \<Longrightarrow> 0 \<le> y \<Longrightarrow> y \<le> 4294967295 \<Longrightarrow>
     in_longlong (4294967295 - x + y)"
  by (simp add: in_longlong_def)

lemma in_longlong_diff: "in_longlong (4294967295 - uint a)" for a :: ulong
  using uint_ulong_bounds [of a] by (intro in_longlong_diff_int) simp_all

lemma in_longlong_sum: "in_longlong (4294967295 - uint a + uint b)" for a b :: ulong
  using uint_ulong_bounds [of a] uint_ulong_bounds [of b]
  by (intro in_longlong_sum_int) simp_all

lemma timeInterval_checked_gt:
  assumes "to < from"
  shows "timeInterval_checked from to = Some (timeInterval from to)"
proof -
  have "\<not> from \<le> to" using assms by (simp add: not_le)
  then have "timeInterval_checked from to = Some (word_of_int (4294967295 - uint from + uint to))"
    by (simp add: timeInterval_checked_def Let_def in_longlong_diff in_longlong_sum)
  also have "word_of_int (4294967295 - uint from + uint to) = (4294967295 :: ulong) - from + to"
    by simp
  finally show ?thesis using assms by (simp add: timeInterval_gt)
qed

text \<open>
  The modular expression is the wrapping subtraction of the machine. The function
  agrees with it on the first branch and is one less on the second.
\<close>

lemma timeInterval_modular_eq: "timeInterval_modular from to = to - from"
proof -
  have "uint (to - from) = (uint to - uint from) mod 2 ^ 32"
    by (simp add: uint_word_ariths)
  then have "timeInterval_modular from to = word_of_int (uint (to - from))"
    by (simp only: timeInterval_modular_def)
  then show ?thesis by simp
qed

lemma timeInterval_modular_le:
  "from \<le> to \<Longrightarrow> timeInterval from to = timeInterval_modular from to"
  by (simp add: timeInterval_le timeInterval_modular_eq)

lemma timeInterval_modular_gt:
  "to < from \<Longrightarrow> timeInterval from to + 1 = timeInterval_modular from to"
  by (simp add: timeInterval_gt timeInterval_modular_eq)

section \<open>The properties of the specification\<close>

text \<open>
  C1. For every pair of unsigned 32-bit inputs with \<open>from \<le> to\<close>, the function
  returns exactly \<open>to - from\<close>: as a 32-bit value, and as an exact integer (the
  subtraction does not wrap).
\<close>

theorem timeInterval_no_wrap:
  "from \<le> to \<Longrightarrow>
     timeInterval from to = to - from \<and> uint (timeInterval from to) = uint to - uint from"
  by (intro conjI timeInterval_le uint_timeInterval_le)

theorem timeInterval_no_wrap_witness:
  "(4294967290 :: ulong) \<le> 4294967295
     \<and> timeInterval 4294967290 4294967295 = 5
     \<and> uint (timeInterval 4294967290 4294967295) = 5"
  using timeInterval_no_wrap [of 4294967290 4294967295] by simp

text \<open>
  C2. For every pair of unsigned 32-bit inputs with \<open>from > to\<close>, the function
  returns exactly \<open>(2 ^ 32 - 1 - from) + to\<close>, read over the exact integers.
\<close>

theorem timeInterval_wrap:
  "to < from \<Longrightarrow> uint (timeInterval from to) = (2 ^ 32 - 1 - uint from) + uint to"
  by (simp add: uint_timeInterval_gt)

theorem timeInterval_wrap_witness:
  "(4 :: ulong) < 4294967290 \<and> uint (timeInterval 4294967290 4) = 9"
  using timeInterval_wrap [of 4 4294967290] by simp

text \<open>
  C3. The claim is that the branching function equals the single modular expression
  \<open>(to - from) mod 2 ^ 32\<close> on every input. On the last tick before the counter
  wraps and the first one after it, one tick has elapsed: the modular expression gives
  1, the function gives 0.
\<close>

theorem timeInterval_modular_differs:
  "timeInterval 4294967295 0 \<noteq> timeInterval_modular 4294967295 0"
  by (simp add: timeInterval_def timeInterval_modular_def)

text \<open>
  C4. For every pair of unsigned 32-bit inputs, the value returned is a non-negative
  tick count in the range \<open>[0, 2 ^ 32 - 1]\<close>.
\<close>

theorem timeInterval_range:
  "0 \<le> uint (timeInterval from to) \<and> uint (timeInterval from to) \<le> 2 ^ 32 - 1"
  using uint_ulong_bounds [of "timeInterval from to"] by simp

text \<open>
  C5. For every unsigned 32-bit value \<open>v\<close>, the interval from \<open>v\<close> to \<open>v\<close> is 0.
\<close>

theorem timeInterval_same: "timeInterval v v = 0"
  by (simp add: timeInterval_def)

text \<open>
  C6. For \<open>from = 2 ^ 32 - 1\<close> and \<open>to = 0\<close> the function returns 0.
\<close>

theorem timeInterval_max_zero: "timeInterval (2 ^ 32 - 1) 0 = 0"
  by (simp add: timeInterval_def)

text \<open>
  C7. For a fixed \<open>from\<close>, the result is strictly increasing in \<open>to\<close> on the range
  \<open>from \<le> to \<le> 2 ^ 32 - 1\<close>, it grows by exactly 1 with each increment of \<open>to\<close>,
  and it matches \<open>to - from\<close>. Here \<open>t1 < t2\<close> says in particular that \<open>t1\<close> is not
  the last value of the counter, so that \<open>t1 + 1\<close> does not wrap.
\<close>

theorem timeInterval_increasing:
  assumes "from \<le> t1" and "t1 < t2"
  shows "timeInterval from t1 < timeInterval from t2
         \<and> uint (timeInterval from (t1 + 1)) = uint (timeInterval from t1) + 1
         \<and> uint (timeInterval from t1) = uint t1 - uint from"
proof -
  have le2: "from \<le> t2" using assms by simp
  have succ: "uint (t1 + 1) = uint t1 + 1" using assms(2) by (rule uint_succ_below)
  have le1: "uint from \<le> uint t1" using assms(1) by (simp add: word_le_def)
  have lt: "uint t1 < uint t2" using assms(2) by (simp add: word_less_def)
  have le_succ: "from \<le> t1 + 1" using le1 succ by (simp add: word_le_def)
  have "uint (timeInterval from t1) < uint (timeInterval from t2)"
    using lt by (simp add: uint_timeInterval_le assms(1) le2)
  then have "timeInterval from t1 < timeInterval from t2"
    by (simp add: word_less_def)
  moreover have "uint (timeInterval from (t1 + 1)) = uint (timeInterval from t1) + 1"
    by (simp add: uint_timeInterval_le assms(1) le_succ succ)
  moreover have "uint (timeInterval from t1) = uint t1 - uint from"
    using assms(1) by (rule uint_timeInterval_le)
  ultimately show ?thesis by simp
qed

theorem timeInterval_increasing_witness:
  "(10 :: ulong) \<le> 15 \<and> (15 :: ulong) < 4294967295
     \<and> timeInterval 10 15 < timeInterval 10 4294967295
     \<and> uint (timeInterval 10 (15 + 1)) = uint (timeInterval 10 15) + 1
     \<and> uint (timeInterval 10 15) = 5"
  using timeInterval_increasing [of 10 15 4294967295] by simp

text \<open>
  C8. The function is total: every pair of unsigned 32-bit inputs gives a result. With
  undefined behaviour of the signed intermediate arithmetic made a failure, the function
  never fails, and its result is the one of \<^const>\<open>timeInterval\<close>.
\<close>

theorem timeInterval_total: "timeInterval_checked from to = Some (timeInterval from to)"
proof (cases "from \<le> to")
  case True
  then show ?thesis by (rule timeInterval_checked_le)
next
  case False
  then have "to < from" by (simp add: not_le)
  then show ?thesis by (rule timeInterval_checked_gt)
qed

text \<open>
  C9. In the second branch (\<open>from > to\<close>) the expression \<open>(4294967295 - from) + to\<close>
  does not wrap in unsigned 32-bit arithmetic: the difference and the sum computed in
  32 bits are the exact integers, the sum is the result of the function, and it is at
  most \<open>2 ^ 32 - 2\<close>.
\<close>

theorem timeInterval_wrap_no_overflow:
  assumes "to < from"
  shows "uint ((4294967295 :: ulong) - from) = 4294967295 - uint from
         \<and> uint ((4294967295 :: ulong) - from + to) = 4294967295 - uint from + uint to
         \<and> 4294967295 - uint from + uint to = uint (timeInterval from to)
         \<and> 0 \<le> 4294967295 - uint from + uint to
         \<and> 4294967295 - uint from + uint to \<le> 2 ^ 32 - 2"
proof -
  have lt: "uint to < uint from" using assms by (simp add: word_less_def)
  have "uint ((4294967295 :: ulong) - from) = (4294967295 - uint from) mod 2 ^ 32"
    by (simp add: uint_word_ariths)
  also have "\<dots> = 4294967295 - uint from"
    using uint_ulong_bounds [of "from"] by (intro diff_no_mod32) simp_all
  finally have d: "uint ((4294967295 :: ulong) - from) = 4294967295 - uint from" .
  have s: "uint ((4294967295 :: ulong) - from + to) = 4294967295 - uint from + uint to"
    using assms by (rule wrap_branch_uint)
  have r: "4294967295 - uint from + uint to = uint (timeInterval from to)"
    using assms by (simp add: uint_timeInterval_gt)
  have lo: "0 \<le> 4294967295 - uint from + uint to"
    using uint_ulong_bounds [of "from"] uint_ulong_bounds [of to] by arith
  have hi: "4294967295 - uint from + uint to \<le> 2 ^ 32 - 2"
    using lt by simp
  show ?thesis using d s r lo hi by simp
qed

theorem timeInterval_wrap_no_overflow_witness:
  "(0 :: ulong) < 1
     \<and> uint ((4294967295 :: ulong) - 1) = 4294967294
     \<and> uint ((4294967295 :: ulong) - 1 + 0) = 4294967294
     \<and> uint (timeInterval 1 0) = 4294967294"
  using timeInterval_wrap_no_overflow [of 0 1] by simp

text \<open>
  C10. For every pair of distinct unsigned 32-bit inputs, the intervals in the two
  directions add up, over the exact integers, to \<open>2 ^ 32 - 1\<close> (the largest value of
  the counter, not \<open>2 ^ 32\<close>).
\<close>

theorem timeInterval_both_directions:
  assumes "from \<noteq> to"
  shows "uint (timeInterval from to) + uint (timeInterval to from) = 2 ^ 32 - 1"
proof (cases "from < to")
  case True
  then have "from \<le> to" by simp
  then have "uint (timeInterval from to) = uint to - uint from"
    by (rule uint_timeInterval_le)
  moreover have "uint (timeInterval to from) = 4294967295 - uint to + uint from"
    using True by (rule uint_timeInterval_gt)
  ultimately show ?thesis by simp
next
  case False
  then have gt: "to < from" using assms by (simp add: not_less less_le)
  then have "to \<le> from" by simp
  then have "uint (timeInterval to from) = uint from - uint to"
    by (rule uint_timeInterval_le)
  moreover have "uint (timeInterval from to) = 4294967295 - uint from + uint to"
    using gt by (rule uint_timeInterval_gt)
  ultimately show ?thesis by simp
qed

theorem timeInterval_both_directions_witness:
  "(4294967290 :: ulong) \<noteq> 4
     \<and> uint (timeInterval 4294967290 4) + uint (timeInterval 4 4294967290) = 2 ^ 32 - 1"
  using timeInterval_both_directions [of 4294967290 4] by simp

end
